theory Spec2Isabelle
  imports Complex_Main "HOL-Library.Word" "HOL-Library.Log_Nat"
begin

unbundle bit_operations_syntax

section \<open>The platform's \<^verbatim>\<open>float\<close>\<close>

text \<open>
  \<^verbatim>\<open>float\<close> is the IEEE-754 binary32 format: bit 31 is the sign, bits 30 to 23 the
  biased exponent, bits 22 to 0 the fraction. The built-in \<^verbatim>\<open>+\<close> rounds the exact sum
  to the nearest representable value, ties to the even significand.
\<close>

datatype float = Float (bits: "32 word")

definition float_sign :: "float \<Rightarrow> bool" where
  "float_sign f = bit (bits f) 31"

definition float_exponent :: "float \<Rightarrow> int" where
  "float_exponent f = uint (drop_bit 23 (bits f) AND 0xFF)"

definition float_fraction :: "float \<Rightarrow> int" where
  "float_fraction f = uint (bits f AND 0x7FFFFF)"

definition is_nan :: "float \<Rightarrow> bool" where
  "is_nan f = (float_exponent f = 255 \<and> float_fraction f \<noteq> 0)"

definition is_inf :: "float \<Rightarrow> bool" where
  "is_inf f = (float_exponent f = 255 \<and> float_fraction f = 0)"

text \<open>
  The absolute value of a finite float, counted in units of \<open>2 ^ -149\<close> (the smallest
  positive float), and its signed value in the same unit.
\<close>

definition magnitude :: "float \<Rightarrow> int" where
  "magnitude f =
     (if float_exponent f = 0 then float_fraction f
      else (2 ^ 23 + float_fraction f) * 2 ^ nat (float_exponent f - 1))"

definition scaled :: "float \<Rightarrow> int" where
  "scaled f = (if float_sign f then - magnitude f else magnitude f)"

definition valof :: "float \<Rightarrow> rat" where
  "valof f = of_int (scaled f) / 2 ^ 149"

text \<open>
  NaN results, as the x86-64 processor gives them: the default NaN has its sign bit
  set, and a NaN operand is returned with its quiet bit (bit 22) set.
\<close>

definition default_nan :: float where
  "default_nan = Float 0xFFC00000"

definition quieted :: "float \<Rightarrow> float" where
  "quieted f = Float (bits f OR 0x00400000)"

definition zero_of_sign :: "bool \<Rightarrow> float" where
  "zero_of_sign neg = Float (if neg then 0x80000000 else 0)"

text \<open>\<open>m div 2 ^ sh\<close>, rounded to nearest, a tie going to the even quotient.\<close>

definition round_shift :: "int \<Rightarrow> nat \<Rightarrow> int" where
  "round_shift m sh =
     (let q = m div 2 ^ sh; r = m mod 2 ^ sh; half = 2 ^ (sh - 1)
      in if sh = 0 then m
         else if half < r \<or> (r = half \<and> q mod 2 = 1) then q + 1 else q)"

text \<open>
  The float nearest to \<open>m\<close> units of \<open>2 ^ -149\<close>, with the given sign. Up to 24 bits
  \<open>m\<close> is its own encoding (subnormal, or exponent field 1). A longer \<open>m\<close> is rounded to
  24 bits; a carry out of the significand moves into the exponent field, and an
  exponent field of 255 or more is infinity.
\<close>

definition round_to_float :: "bool \<Rightarrow> int \<Rightarrow> float" where
  "round_to_float neg m =
     (let n = bitlen m;
          e = (if n \<le> 24 then m
               else min ((n - 24) * 2 ^ 23 + round_shift m (nat (n - 24))) 0x7F800000)
      in Float ((if neg then 0x80000000 else 0) OR word_of_int e))"

text \<open>
  Addition. A NaN operand is the result, quieted; of two NaN operands it is the left
  one. Infinities of opposite sign give the default NaN. An exact sum of zero is \<open>-0\<close>
  only when both operands are negative.
\<close>

instantiation float :: plus
begin

definition plus_float :: "float \<Rightarrow> float \<Rightarrow> float" where
  "plus_float f g =
     (if is_nan f then quieted f
      else if is_nan g then quieted g
      else if is_inf f then (if is_inf g \<and> float_sign f \<noteq> float_sign g then default_nan else f)
      else if is_inf g then g
      else let k = scaled f + scaled g
           in if k = 0 then zero_of_sign (float_sign f \<and> float_sign g)
              else round_to_float (k < 0) \<bar>k\<bar>)"

instance ..

end

subsection \<open>Printing a float\<close>

text \<open>
  \<^verbatim>\<open>std::cout << f\<close> with the stream's default flags formats \<^verbatim>\<open>f\<close> as
  \<^verbatim>\<open>printf("%g")\<close> does with precision 6: six significant decimal digits of the exact
  value, rounded to nearest (ties to even); fixed notation when the decimal exponent
  \<open>X\<close> satisfies \<open>-4 \<le> X < 6\<close>, scientific notation otherwise; trailing zeros and a
  trailing decimal point removed.
\<close>

definition pow10 :: "int \<Rightarrow> rat" where
  "pow10 k = (if 0 \<le> k then 10 ^ nat k else 1 / 10 ^ nat (- k))"

definition dec_exponent :: "rat \<Rightarrow> int" where
  "dec_exponent v =
     (case find (\<lambda>k. pow10 k \<le> v) (rev [-45..38]) of Some k \<Rightarrow> k | None \<Rightarrow> -46)"

definition round_half_even :: "rat \<Rightarrow> int" where
  "round_half_even q =
     (let n = \<lfloor>q\<rfloor>; r = q - of_int n
      in if 1 / 2 < r \<or> (r = 1 / 2 \<and> n mod 2 = 1) then n + 1 else n)"

text \<open>
  The decimal exponent \<open>X\<close> and the six digits \<open>n\<close> (\<open>10 ^ 5 \<le> n < 10 ^ 6\<close>) of
  \<open>v\<close>: \<open>v\<close> rounds to \<open>n * 10 ^ (X - 5)\<close>.
\<close>

definition sig_digits :: "rat \<Rightarrow> int \<times> int" where
  "sig_digits v =
     (let X = dec_exponent v; n = round_half_even (v / pow10 (X - 5))
      in if n = 10 ^ 6 then (X + 1, 10 ^ 5) else (X, n))"

definition digit_char :: "int \<Rightarrow> char" where
  "digit_char d = ''0123456789'' ! nat d"

definition digits6 :: "int \<Rightarrow> string" where
  "digits6 n = map (\<lambda>i. digit_char (n div 10 ^ i mod 10)) [5, 4, 3, 2, 1, 0]"

definition strip_zeros :: "string \<Rightarrow> string" where
  "strip_zeros ds = rev (dropWhile (\<lambda>c. c = CHR ''0'') (rev ds))"

definition with_point :: "string \<Rightarrow> string \<Rightarrow> string" where
  "with_point ip fp =
     (let fs = strip_zeros fp in if fs = [] then ip else ip @ ''.'' @ fs)"

definition fmt_g :: "rat \<Rightarrow> string" where
  "fmt_g v =
     (let (X, n) = sig_digits v; ds = digits6 n
      in if -4 \<le> X \<and> X < 6 then
           (if 0 \<le> X then with_point (take (nat (X + 1)) ds) (drop (nat (X + 1)) ds)
            else with_point ''0'' (replicate (nat (- X - 1)) CHR ''0'' @ ds))
         else with_point (take 1 ds) (drop 1 ds) @ ''e'' @ (if X < 0 then ''-'' else ''+'')
              @ [digit_char (\<bar>X\<bar> div 10), digit_char (\<bar>X\<bar> mod 10)])"

definition show_float :: "float \<Rightarrow> string" where
  "show_float f =
     (if float_sign f then ''-'' else []) @
     (if is_nan f then ''nan''
      else if is_inf f then ''inf''
      else if magnitude f = 0 then ''0''
      else fmt_g (of_int (magnitude f) / 2 ^ 149))"

section \<open>The Add trait (Add.h)\<close>

text \<open>
  Every implementation \<^verbatim>\<open>Add<Self, Rhs, Out>\<close> is a struct with one member of type
  \<^verbatim>\<open>Self\<close>, a constructor that stores its argument there, and a member function
  \<^verbatim>\<open>add(Rhs) -> Out\<close>. The struct is the record below; \<^verbatim>\<open>Rhs\<close> and \<^verbatim>\<open>Out\<close> only
  occur in the type of \<^verbatim>\<open>add\<close>.
\<close>

record 's Add =
  self :: 's

definition Add_ctor :: "'s \<Rightarrow> 's Add" where
  "Add_ctor s = \<lparr>self = s\<rparr>"

text \<open>
  The concept \<^verbatim>\<open>AddTrait<Self, Rhs, Out>\<close> asks for \<^verbatim>\<open>self.add(other)\<close> of type
  \<^verbatim>\<open>Out\<close>. Template resolution picks the specialisation from the three types at
  compile time; here the selected member function is passed explicitly.
\<close>

type_synonym ('s, 'r, 'o) AddTrait = "'s Add \<Rightarrow> 'r \<Rightarrow> 'o"

text \<open>
  \<^verbatim>\<open>struct Add<Self>\<close> for integral and floating-point \<^verbatim>\<open>Self\<close>:
  \<^verbatim>\<open>return self + other;\<close> with the built-in addition of \<^verbatim>\<open>Self\<close>. An unsigned
  integer type of \<open>w\<close> bits is \<open>w word\<close>, whose \<open>+\<close> wraps around.
\<close>

definition Add_add :: "('a::plus, 'a, 'a) AddTrait" where
  "Add_add this other = self this + other"

text \<open>
  The generic \<^verbatim>\<open>operator+(Self lhs, Rhs rhs) -> Out\<close>:
  \<^verbatim>\<open>return Add<Self, Rhs, Out>(lhs).add(rhs);\<close>
\<close>

definition operator_plus :: "('s, 'r, 'o) AddTrait \<Rightarrow> 's \<Rightarrow> 'r \<Rightarrow> 'o" where
  "operator_plus impl lhs rhs = impl (Add_ctor lhs) rhs"

subsection \<open>The dynamic wrapper\<close>

text \<open>
  \<^verbatim>\<open>std::function<Out(Rhs)>\<close> is either empty or holds a callable; calling an empty
  one throws \<^verbatim>\<open>std::bad_function_call\<close>.
\<close>

datatype error = bad_function_call

type_synonym ('r, 'o) std_function = "('r \<Rightarrow> 'o) option"

definition call :: "('r, 'o) std_function \<Rightarrow> 'r \<Rightarrow> error + 'o" where
  "call f arg = (case f of None \<Rightarrow> Inl bad_function_call | Some g \<Rightarrow> Inr (g arg))"

text \<open>
  \<^verbatim>\<open>struct Add<Dyn, Rhs, Out>\<close> has the single member
  \<^verbatim>\<open>const std::function<Out(Rhs)> add\<close>. Its constructor template moves \<^verbatim>\<open>s\<close> into
  the closure \<^verbatim>\<open>[s = std::move(s)](Rhs rhs) -> Out { return Add<Self, Rhs, Out>(s).add(rhs); }\<close>.
\<close>

datatype ('r, 'o) DynAdd = DynAdd (add: "('r, 'o) std_function")

definition DynAdd_ctor :: "('s, 'r, 'o) AddTrait \<Rightarrow> 's \<Rightarrow> ('r, 'o) DynAdd" where
  "DynAdd_ctor impl s = DynAdd (Some (\<lambda>rhs. impl (Add_ctor s) rhs))"

text \<open>
  \<^verbatim>\<open>operator+(Add<Dyn, Rhs, Out> lhs, Rhs rhs) -> Out\<close>: \<^verbatim>\<open>return lhs.add(rhs);\<close>
\<close>

definition operator_plus_Dyn :: "('r, 'o) DynAdd \<Rightarrow> 'r \<Rightarrow> error + 'o" where
  "operator_plus_Dyn lhs rhs = call (add lhs) rhs"

section \<open>Points (Point.h)\<close>

record 't Point =
  x :: 't
  y :: 't

text \<open>
  \<^verbatim>\<open>struct Add<Point<T>>\<close>, for \<^verbatim>\<open>T\<close> with \<^verbatim>\<open>AddTrait<T>\<close>. The two sums
  \<^verbatim>\<open>self.x + other.x\<close> and \<^verbatim>\<open>self.y + other.y\<close> are \<^verbatim>\<open>operator+\<close> at type \<^verbatim>\<open>T\<close>.
\<close>

definition Add_Point_add ::
  "('t, 't, 't) AddTrait \<Rightarrow> ('t Point, 't Point, 't Point) AddTrait" where
  "Add_Point_add impl_T this other =
     (let x_sum = operator_plus impl_T (x (self this)) (x other);
          y_sum = operator_plus impl_T (y (self this)) (y other)
      in \<lparr>x = x_sum, y = y_sum\<rparr>)"

text \<open>
  \<^verbatim>\<open>struct Add<Point<float>, float, float>\<close>: \<^verbatim>\<open>return self.x + rhs;\<close>
\<close>

definition Add_Point_float_add :: "(float Point, float, float) AddTrait" where
  "Add_Point_float_add this rhs = x (self this) + rhs"

section \<open>The driver (main.cpp)\<close>

text \<open>The literals \<^verbatim>\<open>1.f\<close>, \<^verbatim>\<open>2.f\<close> and \<^verbatim>\<open>1.2f\<close>.\<close>

definition lit_1f :: float where
  "lit_1f = Float 0x3F800000"

definition lit_2f :: float where
  "lit_2f = Float 0x40000000"

definition lit_1_2f :: float where
  "lit_1_2f = Float 0x3F99999A"

text \<open>
  The locals of \<^verbatim>\<open>main\<close>. A local holds nothing meaningful before its declaration
  runs, so the frame \<^verbatim>\<open>main\<close> starts from is a parameter of the model; no statement
  reads a local before writing it.
\<close>

record locals =
  a :: "float Point"
  b :: "float Point"
  sum' :: "float Point"
  floating_point :: float
  v_lhs :: "(float, float) DynAdd list"

text \<open>
  Static dispatch: the declarations of \<^verbatim>\<open>a\<close>, \<^verbatim>\<open>b\<close> and \<^verbatim>\<open>sum\<close>, and the first
  output statement. The result is the frame and the text written to \<^verbatim>\<open>std::cout\<close>.
\<close>

definition main_static :: "locals \<Rightarrow> locals \<times> string" where
  "main_static fr0 =
     (let fr1 = fr0\<lparr>a := \<lparr>x = lit_1f, y = lit_1f\<rparr>\<rparr>;
          fr2 = fr1\<lparr>b := \<lparr>x = lit_2f, y = lit_2f\<rparr>\<rparr>;
          fr3 = fr2\<lparr>sum' := operator_plus (Add_Point_add Add_add) (a fr2) (b fr2)\<rparr>
      in (fr3, show_float (x (sum' fr3)) @ '' '' @ show_float (y (sum' fr3)) @ ''\<newline>''))"

text \<open>Dynamic dispatch: the declarations of \<^verbatim>\<open>floating_point\<close> and \<^verbatim>\<open>v_lhs\<close>.\<close>

definition main_wrap :: "locals \<Rightarrow> locals" where
  "main_wrap fr0 =
     (let fr1 = fr0\<lparr>floating_point := lit_1_2f\<rparr>
      in fr1\<lparr>v_lhs := [DynAdd_ctor Add_add (floating_point fr1),
                       DynAdd_ctor Add_Point_float_add (a fr1)]\<rparr>)"

text \<open>
  The loop \<^verbatim>\<open>for (const auto& lhs: v_lhs)\<close>, with the text written so far. An
  exception leaving the body ends the loop.
\<close>

fun main_loop :: "(float, float) DynAdd list \<Rightarrow> string \<Rightarrow> error + string" where
  "main_loop [] out = Inr out"
| "main_loop (lhs # rest) out =
     (case operator_plus_Dyn lhs lit_1_2f of
        Inl e \<Rightarrow> Inl e
      | Inr s \<Rightarrow> main_loop rest (out @ ''sum = '' @ show_float s @ ''\<newline>''))"

text \<open>\<^verbatim>\<open>main\<close>: the text written to standard output and the exit code.\<close>

definition main :: "locals \<Rightarrow> error + string \<times> int" where
  "main fr0 =
     (let (fr1, out) = main_static fr0;
          fr2 = main_wrap fr1
      in case main_loop (v_lhs fr2) out of
           Inl e \<Rightarrow> Inl e
         | Inr out' \<Rightarrow> Inr (out', 0))"

text \<open>The lines of a text: the pieces ended by a newline, and what follows the last one.\<close>

fun split_lines_from :: "string \<Rightarrow> string \<Rightarrow> string list" where
  "split_lines_from cur [] = (if cur = [] then [] else [cur])"
| "split_lines_from cur (c # cs) =
     (if c = CHR ''\<newline>'' then cur # split_lines_from [] cs
      else split_lines_from (cur @ [c]) cs)"

definition split_lines :: "string \<Rightarrow> string list" where
  "split_lines s = split_lines_from [] s"

section \<open>Objects in memory\<close>

text \<open>
  The operands of an addition, and the value a wrapper is built from, are objects of
  the caller. To say what a call does to them, objects get addresses: memory is the
  sequence of the live objects, and the address of an object is its position. A
  parameter passed by value, a member of a temporary and every other new object is put at
  the end, initialised with a copy, and removed when its lifetime ends.
\<close>

type_synonym addr = nat

type_synonym 'v memory = "'v list"

definition alloc :: "'v \<Rightarrow> 'v memory \<Rightarrow> addr \<times> 'v memory" where
  "alloc v m = (length m, m @ [v])"

definition free_to :: "nat \<Rightarrow> 'v memory \<Rightarrow> 'v memory" where
  "free_to n m = take n m"

text \<open>
  The member function \<^verbatim>\<open>add\<close> is not \<^verbatim>\<open>const\<close>, and neither is its parameter: a body
  may assign to the member \<^verbatim>\<open>self\<close> of its object and to its parameter, and it has no
  other object in reach. A body is given by what it returns and what it leaves in the
  two objects, as a function of what it finds in them; \<open>in_place\<close> runs it on the objects
  at two addresses.
\<close>

type_synonym ('s, 'r, 'o) member_body = "'s \<Rightarrow> 'r \<Rightarrow> 'o \<times> 's \<times> 'r"

definition in_place ::
  "('v, 'v, 'o) member_body \<Rightarrow> addr \<Rightarrow> addr \<Rightarrow> 'v memory \<Rightarrow> 'o \<times> 'v memory" where
  "in_place body this other m =
     (let (out, self', other') = body (m ! this) (m ! other)
      in (out, m[this := self', other := other']))"

text \<open>
  The bodies of the three \<^verbatim>\<open>add\<close> of the source contain no assignment: they return
  their sum and leave both objects as they found them.
\<close>

definition member_of :: "('s, 'r, 'o) AddTrait \<Rightarrow> ('s, 'r, 'o) member_body" where
  "member_of impl s r = (impl (Add_ctor s) r, s, r)"

text \<open>
  The constructor \<^verbatim>\<open>Add(Self s): self(s) {}\<close>, called with the object at \<open>arg\<close>: the
  parameter \<^verbatim>\<open>s\<close> is a new object, a copy of the argument; the member \<^verbatim>\<open>self\<close> of the
  object under construction is a copy of \<^verbatim>\<open>s\<close>; \<^verbatim>\<open>s\<close> ends with the call. The result is
  the address of the member.
\<close>

definition Add_ctor_mem :: "addr \<Rightarrow> 'v memory \<Rightarrow> addr \<times> 'v memory" where
  "Add_ctor_mem arg m =
     (let (s, m1) = alloc (m ! arg) m;
          v = m1 ! s
      in alloc v (free_to (length m) m1))"

text \<open>
  The call \<^verbatim>\<open>.add(rhs)\<close> on the object at \<open>this\<close>, with the object at \<open>arg\<close> as
  argument: the parameter is a new object, a copy of the argument; the body runs on the
  object and on the parameter; the parameter ends with the call.
\<close>

definition add_call ::
  "('v, 'v, 'o) member_body \<Rightarrow> addr \<Rightarrow> addr \<Rightarrow> 'v memory \<Rightarrow> 'o \<times> 'v memory" where
  "add_call body this arg m =
     (let (other, m1) = alloc (m ! arg) m;
          (out, m2) = in_place body this other m1
      in (out, free_to (length m) m2))"

text \<open>
  \<^verbatim>\<open>operator+(Self lhs, Rhs rhs)\<close>, called with the objects at two addresses: the
  parameters \<^verbatim>\<open>lhs\<close> and \<^verbatim>\<open>rhs\<close> are new objects, copies of the arguments; the body
  \<^verbatim>\<open>return Add<Self, Rhs, Out>(lhs).add(rhs);\<close> constructs a temporary from \<^verbatim>\<open>lhs\<close> and
  calls its \<^verbatim>\<open>add\<close> with \<^verbatim>\<open>rhs\<close>; the temporary and the parameters end with the call.
  Objects of different types are summands of the type \<open>'v\<close>.
\<close>

definition operator_plus_mem ::
  "('v, 'v, 'o) member_body \<Rightarrow> addr \<Rightarrow> addr \<Rightarrow> 'v memory \<Rightarrow> 'o \<times> 'v memory" where
  "operator_plus_mem body lhs_arg rhs_arg m =
     (let (lhs, m1) = alloc (m ! lhs_arg) m;
          (rhs, m2) = alloc (m1 ! rhs_arg) m1;
          (this, m3) = Add_ctor_mem lhs m2;
          (out, m4) = add_call body this rhs m3
      in (out, free_to (length m) m4))"

text \<open>
  A callable held by a \<^verbatim>\<open>std::function\<close> runs in the memory of the time of the call:
  what it captured by reference it reads there, what it captured by value it carries
  with it.
\<close>

datatype ('s, 'r, 'o) DynAdd_mem = DynAdd_mem (add_mem: "('s memory \<Rightarrow> 'r \<Rightarrow> 'o) option")

text \<open>
  The constructor template of the wrapper, called with the object at \<open>arg\<close>: the
  parameter \<^verbatim>\<open>s\<close> is a new object, a copy of the argument; the capture
  \<^verbatim>\<open>[s = std::move(s)]\<close> gives the closure a member of its own, initialised from the
  parameter; the parameter ends with the call. The closure's body
  \<^verbatim>\<open>return Add<Self, Rhs, Out>(s).add(rhs);\<close> runs \<^verbatim>\<open>add\<close> on a temporary built from the
  captured member and on a copy of \<^verbatim>\<open>rhs\<close>, and returns its result.
\<close>

definition DynAdd_ctor_mem ::
  "('s, 'r, 'o) member_body \<Rightarrow> addr \<Rightarrow> 's memory \<Rightarrow> ('s, 'r, 'o) DynAdd_mem \<times> 's memory" where
  "DynAdd_ctor_mem body arg m =
     (let (s, m1) = alloc (m ! arg) m;
          captured = m1 ! s
      in (DynAdd_mem (Some (\<lambda>m' rhs. fst (body captured rhs))), free_to (length m) m1))"

text \<open>
  \<^verbatim>\<open>operator+(Add<Dyn, Rhs, Out> lhs, Rhs rhs)\<close>, called in the memory \<open>m\<close>:
  \<^verbatim>\<open>return lhs.add(rhs);\<close>
\<close>

definition operator_plus_Dyn_mem ::
  "('s, 'r, 'o) DynAdd_mem \<Rightarrow> 'r \<Rightarrow> 's memory \<Rightarrow> error + 'o" where
  "operator_plus_Dyn_mem lhs rhs m = call (map_option (\<lambda>f. f m) (add_mem lhs)) rhs"

text \<open>
  The point objects of \<^verbatim>\<open>main\<close> in memory, after the declaration of \<^verbatim>\<open>sum\<close>: \<^verbatim>\<open>a\<close>,
  \<^verbatim>\<open>b\<close>, and \<^verbatim>\<open>sum\<close>, which is initialised with the value of \<^verbatim>\<open>a + b\<close>.
\<close>

definition main_static_mem :: "float Point memory" where
  "main_static_mem =
     (let (a_addr, m1) = alloc \<lparr>x = lit_1f, y = lit_1f\<rparr> [];
          (b_addr, m2) = alloc \<lparr>x = lit_2f, y = lit_2f\<rparr> m1;
          (v, m3) = operator_plus_mem (member_of (Add_Point_add Add_add)) a_addr b_addr m2
      in snd (alloc v m3))"

section \<open>Facts about the float model\<close>

lemma lit_values:
  "valof lit_1f = 1" "valof lit_2f = 2" "\<bar>valof lit_1_2f - 6 / 5\<bar> < 1 / 2 ^ 24"
  by code_simp+

lemma sum_1_2: "lit_1f + lit_2f = Float 0x40400000"
  by code_simp

lemma sum_12_12: "lit_1_2f + lit_1_2f = Float 0x4019999A"
  by code_simp

lemma sum_1_12: "lit_1f + lit_1_2f = Float 0x400CCCCD"
  by code_simp

lemma sum_max_max: "Float 0x7F7FFFFF + Float 0x7F7FFFFF = Float 0x7F800000"
  by code_simp

text \<open>
  The rounding of the model on known sums: 0.1 + 0.2; a tie that stays at the even
  significand and one that moves up to it; subnormal sums, which are exact; the signs of
  zero; infinities; overflow at the largest finite float plus half a unit in its last
  place; NaN operands.
\<close>

lemma plus_float_examples:
  "Float 0x3DCCCCCD + Float 0x3E4CCCCD = Float 0x3E99999A"
  "Float 0x3F800000 + Float 0x33800000 = Float 0x3F800000"
  "Float 0x3F800001 + Float 0x33800000 = Float 0x3F800002"
  "Float 0x00000001 + Float 0x00000001 = Float 0x00000002"
  "Float 0x007FFFFF + Float 0x00000001 = Float 0x00800000"
  "Float 0x80000000 + Float 0x80000000 = Float 0x80000000"
  "Float 0x3F800000 + Float 0xBF800000 = Float 0x00000000"
  "Float 0x7F800000 + Float 0xFF800000 = Float 0xFFC00000"
  "Float 0xFF800000 + Float 0x7F800000 = Float 0xFFC00000"
  "Float 0x7F800123 + Float 0x3F800000 = Float 0x7FC00123"
  "Float 0x3F800000 + Float 0xFFC00456 = Float 0xFFC00456"
  "Float 0x7F800123 + Float 0xFFC00456 = Float 0x7FC00123"
  "Float 0x7F800000 + Float 0x3F800000 = Float 0x7F800000"
  "Float 0x7F7FFFFF + Float 0x73000000 = Float 0x7F800000"
  by code_simp+

text \<open>
  The formatting of the model on known values: 1000000, 999999, 123456.7, 0.0001, 1/3,
  1234567, the largest finite float, -2.5, -0, infinity and the default NaN.
\<close>

lemma show_float_examples:
  "show_float (Float 0x49742400) = ''1e+06''"
  "show_float (Float 0x497423F0) = ''999999''"
  "show_float (Float 0x47F1205A) = ''123457''"
  "show_float (Float 0x38D1B717) = ''0.0001''"
  "show_float (Float 0x3EAAAAAB) = ''0.333333''"
  "show_float (Float 0x4996B438) = ''1.23457e+06''"
  "show_float (Float 0x7F7FFFFF) = ''3.40282e+38''"
  "show_float (Float 0xC0200000) = ''-2.5''"
  "show_float (Float 0x80000000) = ''-0''"
  "show_float (Float 0x7F800000) = ''inf''"
  "show_float (Float 0xFFC00000) = ''-nan''"
  by code_simp+

lemma sum_values:
  "valof (Float 0x40400000) = 3"
  "\<bar>valof (Float 0x4019999A) - 24 / 10\<bar> < 1 / 2 ^ 23"
  "\<bar>valof (Float 0x400CCCCD) - 22 / 10\<bar> < 1 / 2 ^ 23"
  by code_simp+

lemma show_3: "show_float (Float 0x40400000) = ''3''"
  by code_simp

lemma show_2_4: "show_float (Float 0x4019999A) = ''2.4''"
  by code_simp

lemma show_2_2: "show_float (Float 0x400CCCCD) = ''2.2''"
  by code_simp

section \<open>Facts about the driver\<close>

lemma main_static_eq:
  "main_static fr =
     (fr\<lparr>a := \<lparr>x = lit_1f, y = lit_1f\<rparr>, b := \<lparr>x = lit_2f, y = lit_2f\<rparr>,
         sum' := \<lparr>x = Float 0x40400000, y = Float 0x40400000\<rparr>\<rparr>,
      ''3 3\<newline>'')"
  by (simp add: main_static_def operator_plus_def Add_Point_add_def Add_add_def Add_ctor_def
      sum_1_2 show_3)

lemma main_wrap_eq:
  "main_wrap fr =
     fr\<lparr>floating_point := lit_1_2f,
        v_lhs := [DynAdd_ctor Add_add lit_1_2f, DynAdd_ctor Add_Point_float_add (a fr)]\<rparr>"
  by (simp add: main_wrap_def)

lemma operator_plus_Dyn_ctor:
  "operator_plus_Dyn (DynAdd_ctor impl s) rhs = Inr (impl (Add_ctor s) rhs)"
  by (simp add: operator_plus_Dyn_def DynAdd_ctor_def call_def)

lemma main_loop_two:
  "main_loop [DynAdd_ctor Add_add lit_1_2f,
              DynAdd_ctor Add_Point_float_add \<lparr>x = lit_1f, y = lit_1f\<rparr>] out
   = Inr (out @ ''sum = 2.4\<newline>sum = 2.2\<newline>'')"
  by (simp add: operator_plus_Dyn_ctor Add_add_def Add_Point_float_add_def Add_ctor_def
      sum_12_12 sum_1_12 show_2_4 show_2_2)

lemma main_v_lhs:
  "v_lhs (main_wrap (fst (main_static fr)))
   = [DynAdd_ctor Add_add lit_1_2f,
      DynAdd_ctor Add_Point_float_add \<lparr>x = lit_1f, y = lit_1f\<rparr>]"
  by (simp add: main_static_eq main_wrap_eq)

lemma main_unfold:
  "main fr =
     (case main_loop (v_lhs (main_wrap (fst (main_static fr)))) (snd (main_static fr)) of
        Inl e \<Rightarrow> Inl e
      | Inr out' \<Rightarrow> Inr (out', 0))"
  by (simp add: main_def split_beta)

lemma main_eq: "main fr = Inr (''3 3\<newline>sum = 2.4\<newline>sum = 2.2\<newline>'', 0)"
proof -
  have "main_loop (v_lhs (main_wrap (fst (main_static fr)))) (snd (main_static fr))
        = Inr (''3 3\<newline>'' @ ''sum = 2.4\<newline>sum = 2.2\<newline>'')"
    unfolding main_v_lhs main_loop_two by (simp add: main_static_eq)
  then show ?thesis
    unfolding main_unfold by simp
qed

lemma split_lines_output:
  "split_lines ''3 3\<newline>sum = 2.4\<newline>sum = 2.2\<newline>'' = [''3 3'', ''sum = 2.4'', ''sum = 2.2'']"
  by (simp add: split_lines_def)

text \<open>
  The loop over any sequence of wrappers that hold a callable: it does not fail, and it
  writes one line per element.
\<close>

lemma main_loop_total:
  "main_loop (map (\<lambda>g. DynAdd (Some g)) gs) out
   = Inr (out @ concat (map (\<lambda>g. ''sum = '' @ show_float (g lit_1_2f) @ ''\<newline>'') gs))"
  by (induction gs arbitrary: out) (simp_all add: operator_plus_Dyn_def call_def)

section \<open>Facts about objects in memory\<close>

lemma Add_ctor_mem_eq:
  "arg < length m \<Longrightarrow> Add_ctor_mem arg m = (length m, m @ [m ! arg])"
  by (simp add: Add_ctor_mem_def alloc_def free_to_def)

lemma add_call_eq:
  assumes "this < length m" "arg < length m"
  shows "add_call body this arg m
         = (fst (body (m ! this) (m ! arg)), m[this := fst (snd (body (m ! this) (m ! arg)))])"
  using assms
  by (simp add: add_call_def alloc_def free_to_def in_place_def split_beta nth_append
      list_update_append)

lemma operator_plus_mem_eq:
  assumes "p < length m" "q < length m"
  shows "operator_plus_mem body p q m = (fst (body (m ! p) (m ! q)), m)"
proof -
  let ?n = "length m"
  let ?m2 = "m @ [m ! p, m ! q]"
  let ?m3 = "m @ [m ! p, m ! q, m ! p]"
  have ctor: "Add_ctor_mem ?n ?m2 = (Suc (Suc ?n), ?m3)"
    using Add_ctor_mem_eq [of ?n ?m2] by (simp add: nth_append)
  have call: "add_call body (Suc (Suc ?n)) (Suc ?n) ?m3
              = (fst (body (m ! p) (m ! q)),
                 ?m3[Suc (Suc ?n) := fst (snd (body (m ! p) (m ! q)))])"
    using add_call_eq [of "Suc (Suc ?n)" ?m3 "Suc ?n" body]
    by (simp add: nth_append)
  show ?thesis
    using assms
    by (simp add: operator_plus_mem_def alloc_def nth_append ctor call free_to_def)
qed

lemma DynAdd_ctor_mem_eq:
  "p < length m \<Longrightarrow>
   DynAdd_ctor_mem body p m = (DynAdd_mem (Some (\<lambda>m' rhs. fst (body (m ! p) rhs))), m)"
  by (simp add: DynAdd_ctor_mem_def alloc_def free_to_def)

lemma main_static_mem_eq:
  "main_static_mem
   = [\<lparr>x = lit_1f, y = lit_1f\<rparr>, \<lparr>x = lit_2f, y = lit_2f\<rparr>,
      \<lparr>x = Float 0x40400000, y = Float 0x40400000\<rparr>]"
proof -
  have "operator_plus_mem (member_of (Add_Point_add Add_add)) 0 (Suc 0)
          [\<lparr>x = lit_1f, y = lit_1f\<rparr>, \<lparr>x = lit_2f, y = lit_2f\<rparr>]
        = (\<lparr>x = Float 0x40400000, y = Float 0x40400000\<rparr>,
           [\<lparr>x = lit_1f, y = lit_1f\<rparr>, \<lparr>x = lit_2f, y = lit_2f\<rparr>])"
    by (simp add: operator_plus_mem_eq member_of_def Add_Point_add_def operator_plus_def
        Add_add_def Add_ctor_def sum_1_2)
  then show ?thesis
    by (simp add: main_static_mem_def alloc_def)
qed

text \<open>
  A body that assigns to its object, run on the operands themselves, as it would be
  if the operands were passed by reference and the temporary held a reference: the left operand is
  overwritten. Called through \<open>operator_plus_mem\<close> the same body leaves it alone.
\<close>

lemma in_place_on_operands_mutates:
  "in_place (\<lambda>s r. (s + r, s + r, r)) 0 1 [1, 2 :: nat] = (3, [3, 2])"
  by (simp add: in_place_def)

lemma operator_plus_mem_on_operands_keeps:
  "operator_plus_mem (\<lambda>s r. (s + r, s + r, r)) 0 1 [1, 2 :: nat] = (3, [1, 2])"
  by (simp add: operator_plus_mem_eq)

text \<open>
  A callable that reads the object it was built from where the object lives, as a
  capture by reference would, follows the object; the wrapper built by
  \<open>DynAdd_ctor_mem\<close> does not.
\<close>

lemma reference_capture_follows_object:
  "operator_plus_Dyn_mem (DynAdd_mem (Some (\<lambda>m' rhs. m' ! 0 + rhs))) 1 [5 :: nat] = Inr 6"
  "operator_plus_Dyn_mem (DynAdd_mem (Some (\<lambda>m' rhs. m' ! 0 + rhs))) 1 [7 :: nat] = Inr 8"
  by (simp_all add: operator_plus_Dyn_mem_def call_def)

lemma value_capture_keeps_snapshot:
  "operator_plus_Dyn_mem (fst (DynAdd_ctor_mem (\<lambda>s r. (s + r, s, r)) 0 [5 :: nat])) 1 [5 :: nat]
   = Inr 6"
  "operator_plus_Dyn_mem (fst (DynAdd_ctor_mem (\<lambda>s r. (s + r, s, r)) 0 [5 :: nat])) 1 [7 :: nat]
   = Inr 6"
  by (simp_all add: DynAdd_ctor_mem_eq operator_plus_Dyn_mem_def call_def)

section \<open>Static dispatch\<close>

text \<open>
  C1. For every coordinate type with an Add implementation and all points \<open>p\<close>, \<open>q\<close>, the
  sum \<open>p + q\<close> is the point whose \<open>x\<close> is the sum of the two \<open>x\<close> coordinates and whose
  \<open>y\<close> is the sum of the two \<open>y\<close> coordinates, each sum being computed by the
  coordinate type's own \<open>add\<close>. For a coordinate type that is a built-in numeric type
  the two sums are its built-in \<open>+\<close>.
\<close>

theorem Point_add_componentwise:
  "x (operator_plus (Add_Point_add impl_T) p q) = impl_T (Add_ctor (x p)) (x q)
   \<and> y (operator_plus (Add_Point_add impl_T) p q) = impl_T (Add_ctor (y p)) (y q)
   \<and> operator_plus (Add_Point_add impl_T) p q
       = \<lparr>x = operator_plus impl_T (x p) (x q), y = operator_plus impl_T (y p) (y q)\<rparr>
   \<and> Add_Point_add impl_T (Add_ctor p) q = operator_plus (Add_Point_add impl_T) p q
   \<and> operator_plus (Add_Point_add Add_add) p' q' = \<lparr>x = x p' + x q', y = y p' + y q'\<rparr>"
  by (simp add: operator_plus_def Add_Point_add_def Add_ctor_def Add_add_def)

text \<open>
  C2. For every point \<open>p\<close> of floats and every float \<open>r\<close>, the specialised
  implementation for a point and a scalar returns the float sum of the point's \<open>x\<close>
  coordinate and \<open>r\<close>. The \<open>y\<close> coordinate takes no part: replacing it by any other
  value leaves the result unchanged.
\<close>

theorem Point_float_scalar_add:
  "Add_Point_float_add (Add_ctor p) r = x p + r
   \<and> operator_plus Add_Point_float_add p r = x p + r
   \<and> Add_Point_float_add (Add_ctor (p\<lparr>y := v\<rparr>)) r = Add_Point_float_add (Add_ctor p) r
   \<and> Add_Point_float_add (Add_ctor \<lparr>x = u, y = v\<rparr>) r
       = Add_Point_float_add (Add_ctor \<lparr>x = u, y = w\<rparr>) r"
  by (simp add: Add_Point_float_add_def operator_plus_def Add_ctor_def)

text \<open>
  C5. For every built-in numeric type, the primitive implementation returns
  \<open>self + rhs\<close> in the arithmetic of that type, with nothing added: for an unsigned
  integer type of \<open>w\<close> bits the result is the sum modulo \<open>2 ^ w\<close> (255 + 1 is 0 in
  8 bits), and for \<open>float\<close> it is the rounded float sum (the largest finite float
  added to itself is infinity; 1 + 1.2 is the float nearest to 2.2).
\<close>

theorem primitive_add_native:
  "Add_add (Add_ctor (s :: 'a :: plus)) r = s + r
   \<and> operator_plus Add_add s r = s + r
   \<and> unat (Add_add (Add_ctor (u :: 'w :: len word)) v) = (unat u + unat v) mod 2 ^ LENGTH('w)
   \<and> Add_add (Add_ctor (255 :: 8 word)) 1 = 0
   \<and> Add_add (Add_ctor (Float 0x7F7FFFFF)) (Float 0x7F7FFFFF) = Float 0x7F800000
   \<and> Add_add (Add_ctor lit_1f) lit_1_2f = Float 0x400CCCCD"
  by (simp add: Add_add_def operator_plus_def Add_ctor_def unat_word_ariths
      sum_max_max sum_1_12)

section \<open>Dynamic dispatch\<close>

text \<open>
  C3. For every implementation of Add for a type \<open>V\<close> with operand type \<open>Rhs\<close> and
  result type \<open>Out\<close>, every value \<open>v\<close> and every \<open>rhs\<close>: wrapping \<open>v\<close> in the dynamic
  wrapper and calling its \<open>add\<close> with \<open>rhs\<close> returns, without an exception, exactly
  the value that the static implementation returns for \<open>v\<close> and \<open>rhs\<close>. The same
  holds for the two \<open>operator+\<close> entry points.
\<close>

theorem DynAdd_agrees_with_static:
  "call (add (DynAdd_ctor impl v)) rhs = Inr (impl (Add_ctor v) rhs)
   \<and> operator_plus_Dyn (DynAdd_ctor impl v) rhs = Inr (operator_plus impl v rhs)"
  by (simp add: operator_plus_Dyn_def DynAdd_ctor_def call_def operator_plus_def)

text \<open>
  C4. In a sequence of wrappers with float operand and float result that holds a
  wrapped float \<open>f\<close> and a wrapped point \<open>p\<close>, in either order, adding \<open>rhs\<close> to every
  element gives \<open>f + rhs\<close> for the float and \<open>p.x + rhs\<close> for the point, each at its
  own position. The collection built by the driver is such a sequence.
\<close>

theorem heterogeneous_dispatch:
  "map (\<lambda>lhs. operator_plus_Dyn lhs rhs)
       [DynAdd_ctor Add_add f, DynAdd_ctor Add_Point_float_add p]
     = [Inr (f + rhs), Inr (x p + rhs)]
   \<and> map (\<lambda>lhs. operator_plus_Dyn lhs rhs)
         [DynAdd_ctor Add_Point_float_add p, DynAdd_ctor Add_add f]
     = [Inr (x p + rhs), Inr (f + rhs)]
   \<and> v_lhs (main_wrap fr) = [DynAdd_ctor Add_add lit_1_2f, DynAdd_ctor Add_Point_float_add (a fr)]"
  by (simp add: operator_plus_Dyn_ctor Add_add_def Add_Point_float_add_def Add_ctor_def
      main_wrap_eq)

section \<open>The driver's results\<close>

text \<open>
  C6. In the driver, the static sum of the points (1, 1) and (2, 2) is the point (3, 3):
  both coordinates are the float of value 3. The statement after it writes
  \<open>3 3\<close> and a newline, and this is the first line of the program's output.
\<close>

theorem main_static_sum:
  "valof lit_1f = 1 \<and> valof lit_2f = 2 \<and> valof (Float 0x40400000) = 3
   \<and> operator_plus (Add_Point_add Add_add) \<lparr>x = lit_1f, y = lit_1f\<rparr> \<lparr>x = lit_2f, y = lit_2f\<rparr>
       = \<lparr>x = Float 0x40400000, y = Float 0x40400000\<rparr>
   \<and> sum' (fst (main_static fr)) = \<lparr>x = Float 0x40400000, y = Float 0x40400000\<rparr>
   \<and> snd (main_static fr) = ''3 3\<newline>''
   \<and> (\<exists>out. main fr = Inr (out, 0) \<and> split_lines out ! 0 = ''3 3'')"
  by (simp add: lit_values sum_values main_static_eq main_eq split_lines_output
      operator_plus_def Add_Point_add_def Add_add_def Add_ctor_def sum_1_2)

text \<open>
  C7. In the driver's loop, adding the literal 1.2 to the wrapper of the float 1.2 gives
  the float nearest to 2.4, printed as the line \<open>sum = 2.4\<close>; adding it to the wrapper
  of the point (1, 1) gives the float nearest to 2.2, whatever the point's \<open>y\<close> is,
  printed as the line \<open>sum = 2.2\<close>. The two lines are written in this order, after
  the first line.
\<close>

theorem main_dynamic_sums:
  "map (\<lambda>lhs. operator_plus_Dyn lhs lit_1_2f) (v_lhs (main_wrap (fst (main_static fr))))
     = [Inr (Float 0x4019999A), Inr (Float 0x400CCCCD)]
   \<and> \<bar>valof lit_1_2f - 12 / 10\<bar> < 1 / 2 ^ 24
   \<and> \<bar>valof (Float 0x4019999A) - 24 / 10\<bar> < 1 / 2 ^ 23
   \<and> \<bar>valof (Float 0x400CCCCD) - 22 / 10\<bar> < 1 / 2 ^ 23
   \<and> operator_plus_Dyn (DynAdd_ctor Add_Point_float_add \<lparr>x = lit_1f, y = v\<rparr>) lit_1_2f
       = Inr (Float 0x400CCCCD)
   \<and> main_loop (v_lhs (main_wrap (fst (main_static fr)))) out
       = Inr (out @ ''sum = 2.4\<newline>sum = 2.2\<newline>'')
   \<and> (\<exists>out. main fr = Inr (out, 0)
         \<and> split_lines out ! 1 = ''sum = 2.4'' \<and> split_lines out ! 2 = ''sum = 2.2'')"
proof -
  have "operator_plus_Dyn (DynAdd_ctor Add_Point_float_add \<lparr>x = lit_1f, y = v\<rparr>) lit_1_2f
        = Inr (Float 0x400CCCCD)"
    by (simp add: operator_plus_Dyn_ctor Add_Point_float_add_def Add_ctor_def sum_1_12)
  moreover have "map (\<lambda>lhs. operator_plus_Dyn lhs lit_1_2f) (v_lhs (main_wrap (fst (main_static fr))))
     = [Inr (Float 0x4019999A), Inr (Float 0x400CCCCD)]"
    unfolding main_v_lhs
    by (simp add: operator_plus_Dyn_ctor Add_add_def Add_Point_float_add_def Add_ctor_def
        sum_12_12 sum_1_12)
  moreover have "main_loop (v_lhs (main_wrap (fst (main_static fr)))) out
       = Inr (out @ ''sum = 2.4\<newline>sum = 2.2\<newline>'')"
    unfolding main_v_lhs by (rule main_loop_two)
  moreover have "\<exists>out. main fr = Inr (out, 0)
         \<and> split_lines out ! 1 = ''sum = 2.4'' \<and> split_lines out ! 2 = ''sum = 2.2''"
    by (simp add: main_eq split_lines_output)
  moreover have "\<bar>valof lit_1_2f - 12 / 10\<bar> < 1 / 2 ^ 24"
    using lit_values(3) by simp
  ultimately show ?thesis
    using sum_values(2,3) by blast
qed

text \<open>
  C8, as the code has it. The program reads nothing and writes three lines to standard
  output: the first holds the two coordinates of the sum point, separated by one space;
  it is followed by one line for each of the two elements of the collection, in order,
  of the form \<open>sum = <value>\<close>, where the value is the result of adding 1.2 to that
  element through its wrapper.
\<close>

theorem main_output_lines:
  "(\<exists>out. main fr = Inr (out, 0)
      \<and> split_lines out
          = (show_float (x (sum' (fst (main_static fr)))) @ '' ''
               @ show_float (y (sum' (fst (main_static fr)))))
            # map (\<lambda>r. ''sum = '' @ show_float r) [lit_1_2f + lit_1_2f, lit_1f + lit_1_2f]
      \<and> length (split_lines out) = 1 + length (v_lhs (main_wrap (fst (main_static fr))))
      \<and> length (split_lines out) = 3)
   \<and> map (\<lambda>lhs. operator_plus_Dyn lhs lit_1_2f) (v_lhs (main_wrap (fst (main_static fr))))
       = map Inr [lit_1_2f + lit_1_2f, lit_1f + lit_1_2f]
   \<and> main fr = main fr'"
proof -
  have "map (\<lambda>lhs. operator_plus_Dyn lhs lit_1_2f) (v_lhs (main_wrap (fst (main_static fr))))
       = map Inr [lit_1_2f + lit_1_2f, lit_1f + lit_1_2f]"
    unfolding main_v_lhs
    by (simp add: operator_plus_Dyn_ctor Add_add_def Add_Point_float_add_def Add_ctor_def)
  moreover have "main fr = main fr'"
    by (simp add: main_eq)
  moreover have "\<exists>out. main fr = Inr (out, 0)
      \<and> split_lines out
          = (show_float (x (sum' (fst (main_static fr)))) @ '' ''
               @ show_float (y (sum' (fst (main_static fr)))))
            # map (\<lambda>r. ''sum = '' @ show_float r) [lit_1_2f + lit_1_2f, lit_1f + lit_1_2f]
      \<and> length (split_lines out) = 1 + length (v_lhs (main_wrap (fst (main_static fr))))
      \<and> length (split_lines out) = 3"
    unfolding main_v_lhs
    by (simp add: main_eq split_lines_output main_static_eq sum_12_12 sum_1_12
        show_3 show_2_4 show_2_2)
  ultimately show ?thesis
    by blast
qed

text \<open>
  C8, as stated, gives the output two lines. The program started from a frame of zero
  bits writes three.
\<close>

theorem main_two_lines_counterexample:
  "main \<lparr>a = \<lparr>x = Float 0, y = Float 0\<rparr>, b = \<lparr>x = Float 0, y = Float 0\<rparr>,
         sum' = \<lparr>x = Float 0, y = Float 0\<rparr>, floating_point = Float 0, v_lhs = []\<rparr>
     = Inr (''3 3\<newline>sum = 2.4\<newline>sum = 2.2\<newline>'', 0)
   \<and> length (split_lines ''3 3\<newline>sum = 2.4\<newline>sum = 2.2\<newline>'') = 3"
  by (simp add: main_eq split_lines_output)

text \<open>
  C9. From every starting frame \<open>main\<close> returns, with exit code 0 and without an
  exception. The collection it iterates has exactly two elements. Calling a wrapper
  that was built by the wrapper's constructor never throws, and the loop over any
  sequence of such wrappers runs to its end.
\<close>

theorem main_no_error_path:
  "(\<exists>out. main fr = Inr (out, 0))
   \<and> length (v_lhs (main_wrap fr')) = 2
   \<and> (\<exists>r. operator_plus_Dyn (DynAdd_ctor impl s) rhs = Inr r)
   \<and> (\<exists>out'. main_loop (map (\<lambda>g. DynAdd (Some g)) gs) out = Inr out')
   \<and> add (DynAdd_ctor impl s) = Some (\<lambda>rhs. impl (Add_ctor s) rhs)"
  by (simp add: main_eq main_wrap_eq operator_plus_Dyn_ctor main_loop_total)
    (simp add: DynAdd_ctor_def)

text \<open>
  C10. An addition leaves memory as it was, and so both of its operands, whatever the
  body of \<open>add\<close> does to its own object and parameter: \<open>operator+\<close>, the constructor
  and \<open>add\<close> take what they get by value, so the body only reaches copies. Building
  a wrapper from an object leaves memory as it was too, and what the wrapper returns,
  in whatever memory it is called later, also one where the object has been
  overwritten, is what \<open>add\<close> returns for the value the object had when the wrapper
  was built. In \<open>main\<close>, once \<open>sum\<close> has been declared, \<open>a\<close> and \<open>b\<close> hold (1, 1) and
  (2, 2) as before, and the wrappers built after that from \<open>floating_point\<close> and from
  \<open>a\<close> answer as the two elements of the driver's collection.
\<close>

theorem by_value_operands_unchanged:
  assumes "p < length m" and "q < length m"
  shows
    "operator_plus_mem body p q m = (fst (body (m ! p) (m ! q)), m)
     \<and> fst (operator_plus_mem (member_of impl') p q m) = operator_plus impl' (m ! p) (m ! q)
     \<and> snd (DynAdd_ctor_mem cbody p m) = m
     \<and> operator_plus_Dyn_mem (fst (DynAdd_ctor_mem cbody p m)) r m' = Inr (fst (cbody (m ! p) r))
     \<and> operator_plus_Dyn_mem (fst (DynAdd_ctor_mem (member_of impl) p m)) r (m[p := w])
         = operator_plus_Dyn (DynAdd_ctor impl (m ! p)) r
     \<and> main_static_mem
         = [a (fst (main_static fr)), b (fst (main_static fr)), sum' (fst (main_static fr))]
     \<and> main_static_mem ! 0 = \<lparr>x = lit_1f, y = lit_1f\<rparr>
     \<and> main_static_mem ! 1 = \<lparr>x = lit_2f, y = lit_2f\<rparr>
     \<and> operator_plus_Dyn_mem
           (fst (DynAdd_ctor_mem (member_of Add_add) 0 [lit_1_2f])) g fm
         = operator_plus_Dyn (v_lhs (main_wrap (fst (main_static fr))) ! 0) g
     \<and> operator_plus_Dyn_mem
           (fst (DynAdd_ctor_mem (member_of Add_Point_float_add) 0 main_static_mem)) g pm
         = operator_plus_Dyn (v_lhs (main_wrap (fst (main_static fr))) ! 1) g"
proof -
  have plus: "operator_plus_mem body p q m = (fst (body (m ! p) (m ! q)), m)"
    using assms by (rule operator_plus_mem_eq)
  have ctor: "snd (DynAdd_ctor_mem cbody p m) = m"
    using assms(1) by (simp add: DynAdd_ctor_mem_eq)
  have pure: "fst (operator_plus_mem (member_of impl') p q m) = operator_plus impl' (m ! p) (m ! q)"
    using assms by (simp add: operator_plus_mem_eq member_of_def operator_plus_def)
  have snap: "operator_plus_Dyn_mem (fst (DynAdd_ctor_mem cbody p m)) r m' = Inr (fst (cbody (m ! p) r))"
    using assms(1) by (simp add: DynAdd_ctor_mem_eq operator_plus_Dyn_mem_def call_def)
  have later: "operator_plus_Dyn_mem (fst (DynAdd_ctor_mem (member_of impl) p m)) r (m[p := w])
         = operator_plus_Dyn (DynAdd_ctor impl (m ! p)) r"
    using assms(1)
    by (simp add: DynAdd_ctor_mem_eq operator_plus_Dyn_mem_def call_def member_of_def
        operator_plus_Dyn_ctor)
  have frame: "main_static_mem
         = [a (fst (main_static fr)), b (fst (main_static fr)), sum' (fst (main_static fr))]"
    by (simp add: main_static_mem_eq main_static_eq)
  have w0: "operator_plus_Dyn_mem
           (fst (DynAdd_ctor_mem (member_of Add_add) 0 [lit_1_2f])) g fm
         = operator_plus_Dyn (v_lhs (main_wrap (fst (main_static fr))) ! 0) g"
    unfolding main_v_lhs
    by (simp add: DynAdd_ctor_mem_eq operator_plus_Dyn_mem_def call_def member_of_def
        operator_plus_Dyn_ctor)
  have w1: "operator_plus_Dyn_mem
           (fst (DynAdd_ctor_mem (member_of Add_Point_float_add) 0 main_static_mem)) g pm
         = operator_plus_Dyn (v_lhs (main_wrap (fst (main_static fr))) ! 1) g"
    unfolding main_v_lhs main_static_mem_eq
    by (simp add: DynAdd_ctor_mem_eq operator_plus_Dyn_mem_def call_def member_of_def
        operator_plus_Dyn_ctor)
  show ?thesis
    using plus pure snap later frame w0 w1
    by (simp add: ctor main_static_mem_eq)
qed

text \<open>
  The theorem at the points (1, 1) and (2, 2) of \<open>main\<close>, with a body that assigns its
  parameter to its object and its object to its parameter: both points stay. The
  wrapper built from the first point leaves them as well.
\<close>

theorem by_value_operands_unchanged_witness:
  "(0 :: nat) < length [\<lparr>x = lit_1f, y = lit_1f\<rparr>, \<lparr>x = lit_2f, y = lit_2f\<rparr>]
   \<and> (1 :: nat) < length [\<lparr>x = lit_1f, y = lit_1f\<rparr>, \<lparr>x = lit_2f, y = lit_2f\<rparr>]
   \<and> operator_plus_mem (\<lambda>s r. (s, r, s)) 0 1
         [\<lparr>x = lit_1f, y = lit_1f\<rparr>, \<lparr>x = lit_2f, y = lit_2f\<rparr>]
       = (\<lparr>x = lit_1f, y = lit_1f\<rparr>, [\<lparr>x = lit_1f, y = lit_1f\<rparr>, \<lparr>x = lit_2f, y = lit_2f\<rparr>])
   \<and> in_place (\<lambda>s r. (s, r, s)) 0 1
         [\<lparr>x = lit_1f, y = lit_1f\<rparr>, \<lparr>x = lit_2f, y = lit_2f\<rparr>]
       = (\<lparr>x = lit_1f, y = lit_1f\<rparr>, [\<lparr>x = lit_2f, y = lit_2f\<rparr>, \<lparr>x = lit_1f, y = lit_1f\<rparr>])
   \<and> snd (DynAdd_ctor_mem (member_of Add_Point_float_add) 0
         [\<lparr>x = lit_1f, y = lit_1f\<rparr>, \<lparr>x = lit_2f, y = lit_2f\<rparr>])
       = [\<lparr>x = lit_1f, y = lit_1f\<rparr>, \<lparr>x = lit_2f, y = lit_2f\<rparr>]"
proof -
  let ?m = "[\<lparr>x = lit_1f, y = lit_1f\<rparr>, \<lparr>x = lit_2f, y = lit_2f\<rparr>]"
  have p: "(0 :: nat) < length ?m" and q: "(1 :: nat) < length ?m"
    by simp_all
  note at_main = by_value_operands_unchanged
    [where body = "\<lambda>s r. (s, r, s)" and cbody = "member_of Add_Point_float_add", OF p q]
  show ?thesis
    using at_main [THEN conjunct1] at_main [THEN conjunct2, THEN conjunct2, THEN conjunct1]
    by (simp add: in_place_def)
qed

end
